theory Spec2Isabelle
  imports Main "HOL-Library.Word"
begin

section \<open>JavaScript strings\<close>

text \<open>
  A JavaScript string is a sequence of UTF-16 code units; \<open>length\<close> counts code units
  and a regular expression without the \<open>u\<close> flag matches code unit by code unit.
  \<open>js\<close> embeds an ASCII literal.
\<close>

type_synonym jschar = "16 word"
type_synonym jsstring = "jschar list"

definition js :: "string \<Rightarrow> jsstring" where
  "js s = map (\<lambda>c. of_char c) s"

text \<open>
  The truthiness test \<open>!x\<close> on a value that is a string, \<open>null\<close> or \<open>undefined\<close>
  (\<open>None\<close>): the empty string is falsy as well.
\<close>

fun falsy :: "jsstring option \<Rightarrow> bool" where
  "falsy None = True"
| "falsy (Some s) = (s = [])"

section \<open>Regular expressions\<close>

text \<open>
  The patterns of \<open>validateUserCredentials\<close> use character classes, negated classes,
  literal characters, concatenation, \<open>+\<close> and the anchors \<open>^\<close> and \<open>$\<close>. A class is a
  list of inclusive code-unit ranges, possibly negated.
\<close>

datatype char_class = In "(jschar \<times> jschar) list" | NotIn "(jschar \<times> jschar) list"

definition in_ranges :: "jschar \<Rightarrow> (jschar \<times> jschar) list \<Rightarrow> bool" where
  "in_ranges c rs = list_ex (\<lambda>(lo, hi). lo \<le> c \<and> c \<le> hi) rs"

fun class_has :: "char_class \<Rightarrow> jschar \<Rightarrow> bool" where
  "class_has (In rs) c = in_ranges c rs"
| "class_has (NotIn rs) c = (\<not> in_ranges c rs)"

datatype regex =
    Fail
  | Empty
  | Class char_class
  | Seq regex regex
  | Or regex regex
  | Many regex

definition OneOrMore :: "regex \<Rightarrow> regex" where
  "OneOrMore r = Seq r (Many r)"

definition Lit :: "jschar \<Rightarrow> regex" where
  "Lit c = Class (In [(c, c)])"

definition AnyChars :: regex where
  "AnyChars = Many (Class (NotIn []))"

text \<open>Matching by derivatives: \<open>deriv c r\<close> matches \<open>w\<close> exactly when \<open>r\<close> matches \<open>c # w\<close>.\<close>

fun nullable :: "regex \<Rightarrow> bool" where
  "nullable Fail = False"
| "nullable Empty = True"
| "nullable (Class k) = False"
| "nullable (Seq r s) = (nullable r \<and> nullable s)"
| "nullable (Or r s) = (nullable r \<or> nullable s)"
| "nullable (Many r) = True"

fun deriv :: "jschar \<Rightarrow> regex \<Rightarrow> regex" where
  "deriv c Fail = Fail"
| "deriv c Empty = Fail"
| "deriv c (Class k) = (if class_has k c then Empty else Fail)"
| "deriv c (Seq r s) =
     (if nullable r then Or (Seq (deriv c r) s) (deriv c s) else Seq (deriv c r) s)"
| "deriv c (Or r s) = Or (deriv c r) (deriv c s)"
| "deriv c (Many r) = Seq (deriv c r) (Many r)"

fun matches :: "regex \<Rightarrow> jsstring \<Rightarrow> bool" where
  "matches r [] = nullable r"
| "matches r (c # w) = matches (deriv c r) w"

text \<open>
  A pattern as \<open>RegExp.prototype.test\<close> sees it (no flags): with both anchors the whole
  string has to match; without an anchor the match may start or end anywhere.
\<close>

datatype regexp = RegExp bool regex bool

fun RegExp_test :: "regexp \<Rightarrow> jsstring \<Rightarrow> bool" where
  "RegExp_test (RegExp from_start r to_end) s =
     matches (Seq (if from_start then Empty else AnyChars)
               (Seq r (if to_end then Empty else AnyChars))) s"

text \<open>The declarative meaning of a pattern, against which the matcher is verified.\<close>

inductive_set reps :: "'a list set \<Rightarrow> 'a list set" for L :: "'a list set" where
  reps_nil: "[] \<in> reps L"
| reps_app: "u \<in> L \<Longrightarrow> v \<in> reps L \<Longrightarrow> u @ v \<in> reps L"

fun lang :: "regex \<Rightarrow> jsstring set" where
  "lang Fail = {}"
| "lang Empty = {[]}"
| "lang (Class k) = {[c] | c. class_has k c}"
| "lang (Seq r s) = {u @ v | u v. u \<in> lang r \<and> v \<in> lang s}"
| "lang (Or r s) = lang r \<union> lang s"
| "lang (Many r) = reps (lang r)"

section \<open>Credential validator\<close>

text \<open>
  \<open>\s\<close> in a JavaScript pattern: the white space and line terminator code units.
\<close>

definition whitespace :: "(jschar \<times> jschar) list" where
  "whitespace =
     [(0x09, 0x0D), (0x20, 0x20), (0xA0, 0xA0), (0x1680, 0x1680), (0x2000, 0x200A),
      (0x2028, 0x2029), (0x202F, 0x202F), (0x205F, 0x205F), (0x3000, 0x3000),
      (0xFEFF, 0xFEFF)]"

text \<open>\<^verbatim>\<open>/^[^\s@]+@[^\s@]+\.[^\s@]+$/\<close>\<close>

definition emailRegex :: regexp where
  "emailRegex =
     RegExp True
       (Seq (OneOrMore (Class (NotIn (whitespace @ [(0x40, 0x40)]))))
         (Seq (Lit 0x40)
           (Seq (OneOrMore (Class (NotIn (whitespace @ [(0x40, 0x40)]))))
             (Seq (Lit 0x2E)
               (OneOrMore (Class (NotIn (whitespace @ [(0x40, 0x40)]))))))))
       True"

definition minLength :: nat where
  "minLength = 8"

text \<open>\<^verbatim>\<open>/[A-Z]/\<close>, \<^verbatim>\<open>/[a-z]/\<close>, \<^verbatim>\<open>/\d/\<close>\<close>

definition uppercaseRegex :: regexp where
  "uppercaseRegex = RegExp False (Class (In [(0x41, 0x5A)])) False"

definition lowercaseRegex :: regexp where
  "lowercaseRegex = RegExp False (Class (In [(0x61, 0x7A)])) False"

definition digitRegex :: regexp where
  "digitRegex = RegExp False (Class (In [(0x30, 0x39)])) False"

text \<open>\<^verbatim>\<open>/[!@#$%^&*(),.?":{}|<>]/\<close>, the characters in the order the class lists them.\<close>

definition specialChars :: "jschar list" where
  "specialChars =
     [0x21, 0x40, 0x23, 0x24, 0x25, 0x5E, 0x26, 0x2A, 0x28, 0x29, 0x2C, 0x2E, 0x3F, 0x22,
      0x3A, 0x7B, 0x7D, 0x7C, 0x3C, 0x3E]"

definition specialCharRegex :: regexp where
  "specialCharRegex = RegExp False (Class (In (map (\<lambda>c. (c, c)) specialChars))) False"

text \<open>\<open>null\<close> is \<open>None\<close>; a violation is its message.\<close>

definition validateUserCredentials :: "jsstring \<Rightarrow> jsstring \<Rightarrow> string option" where
  "validateUserCredentials email password =
     (if \<not> RegExp_test emailRegex email then Some ''Invalid email format''
      else if length password < minLength then
        Some ''Password must be at least 8 characters long''
      else if \<not> RegExp_test uppercaseRegex password then
        Some ''Password must contain at least one uppercase letter''
      else if \<not> RegExp_test lowercaseRegex password then
        Some ''Password must contain at least one lowercase letter''
      else if \<not> RegExp_test digitRegex password then
        Some ''Password must contain at least one digit''
      else if \<not> RegExp_test specialCharRegex password then
        Some ''Password must contain at least one special character''
      else None)"

text \<open>
  The validator as the specification describes it: a fixed list of rules, each a
  condition on the credentials with the message of its violation; the first rule that
  fails gives the result.
\<close>

definition plain_char :: "jschar \<Rightarrow> bool" where
  "plain_char c = (\<not> in_ranges c whitespace \<and> c \<noteq> 0x40)"

definition email_shaped :: "jsstring \<Rightarrow> bool" where
  "email_shaped e =
     (\<exists>a b c. e = a @ [0x40] @ b @ [0x2E] @ c \<and> a \<noteq> [] \<and> b \<noteq> [] \<and> c \<noteq> [] \<and>
        list_all plain_char (a @ b @ c))"

definition credential_rules :: "((jsstring \<Rightarrow> jsstring \<Rightarrow> bool) \<times> string) list" where
  "credential_rules =
     [(\<lambda>e p. email_shaped e, ''Invalid email format''),
      (\<lambda>e p. 8 \<le> length p, ''Password must be at least 8 characters long''),
      (\<lambda>e p. list_ex (\<lambda>c. 0x41 \<le> c \<and> c \<le> 0x5A) p,
         ''Password must contain at least one uppercase letter''),
      (\<lambda>e p. list_ex (\<lambda>c. 0x61 \<le> c \<and> c \<le> 0x7A) p,
         ''Password must contain at least one lowercase letter''),
      (\<lambda>e p. list_ex (\<lambda>c. 0x30 \<le> c \<and> c \<le> 0x39) p,
         ''Password must contain at least one digit''),
      (\<lambda>e p. list_ex (\<lambda>c. c \<in> set specialChars) p,
         ''Password must contain at least one special character'')]"

definition first_violation :: "jsstring \<Rightarrow> jsstring \<Rightarrow> string option" where
  "first_violation e p =
     map_option snd (find (\<lambda>rule. \<not> fst rule e p) credential_rules)"

section \<open>Documents and the store\<close>

text \<open>
  The collections of the document database, as lists of documents in insertion order. An
  \<open>ObjectId\<close> is an opaque key; the routes compare ids only for equality (the decoded
  token carries the id as a string, compared with \<open>owner.toString()\<close>). Route parameters
  are taken as ids: a parameter that is not a well-formed id makes the lookup throw, and
  the route's \<open>catch\<close> answers 500. The store itself does not fail. The timestamps and
  version keys the schemas add are left out: no route reads them.
\<close>

type_synonym oid = nat

text \<open>
  Modelled from the spec: the Identity record (\<open>models/user.model.js\<close> is not among the
  sources); the fields are those the routes and the token issuer read and write.
\<close>

record user =
  u_id :: oid
  u_email :: jsstring
  u_password :: jsstring
  u_name :: "jsstring option"
  u_role :: "jsstring option"
  u_refreshToken :: "jsstring option"

text \<open>\<open>calendarSchema\<close>: \<open>name\<close>, \<open>owner\<close> and the list of event references.\<close>

record calendar =
  c_id :: oid
  c_name :: jsstring
  c_owner :: oid
  c_events :: "oid list"

text \<open>\<open>eventSchema\<close>; a \<open>Date\<close> is its time value, milliseconds since the epoch.\<close>

record event =
  e_id :: oid
  e_title :: jsstring
  e_description :: "jsstring option"
  e_startTime :: int
  e_endTime :: int
  e_location :: "jsstring option"
  e_organizer :: oid
  e_attendees :: "oid list"

text \<open>\<open>blacklistSchema\<close>\<close>

record revocation =
  b_token :: jsstring
  b_expiresAt :: int

record store =
  users :: "user list"
  calendars :: "calendar list"
  events :: "event list"
  blacklist :: "revocation list"

text \<open>What a failed store operation reports as \<open>err.message\<close>.\<close>

datatype failure = ValidationError | DuplicateKey | CastError | TypeError | ReferenceError


definition User_findOne_refreshToken :: "store \<Rightarrow> jsstring \<Rightarrow> user option" where
  "User_findOne_refreshToken st token = find (\<lambda>u. u_refreshToken u = Some token) (users st)"

definition User_findById :: "store \<Rightarrow> oid \<Rightarrow> user option" where
  "User_findById st i = find (\<lambda>u. u_id u = i) (users st)"



definition Blacklist_findOne :: "store \<Rightarrow> jsstring \<Rightarrow> revocation option" where
  "Blacklist_findOne st token = find (\<lambda>b. b_token b = token) (blacklist st)"

definition Calendar_findById :: "store \<Rightarrow> oid \<Rightarrow> calendar option" where
  "Calendar_findById st i = find (\<lambda>c. c_id c = i) (calendars st)"

definition Calendar_find_owner :: "store \<Rightarrow> oid \<Rightarrow> calendar list" where
  "Calendar_find_owner st userId = filter (\<lambda>c. c_owner c = userId) (calendars st)"

definition Calendar_save :: "store \<Rightarrow> calendar \<Rightarrow> store" where
  "Calendar_save st c =
     st\<lparr>calendars := map (\<lambda>d. if c_id d = c_id c then c else d) (calendars st)\<rparr>"

definition Event_findById :: "store \<Rightarrow> oid \<Rightarrow> event option" where
  "Event_findById st i = find (\<lambda>e. e_id e = i) (events st)"

definition Event_insert :: "store \<Rightarrow> event \<Rightarrow> failure + store" where
  "Event_insert st e =
     (if e_id e \<in> set (map e_id (events st)) then Inl DuplicateKey
      else Inr (st\<lparr>events := events st @ [e]\<rparr>))"

subsection \<open>Population\<close>

text \<open>
  \<open>populate(path, "-password -refreshToken")\<close> replaces a reference by the referenced
  user document without the two named fields (by \<open>null\<close> when the user is gone; a missing
  attendee is dropped from the array). A user document is kept as its list of fields so
  that the projection is the removal of keys.
\<close>

datatype jsval = Null | Str jsstring | Id oid

type_synonym doc = "(string \<times> jsval) list"

definition nullable_str :: "jsstring option \<Rightarrow> jsval" where
  "nullable_str v = (case v of None \<Rightarrow> Null | Some s \<Rightarrow> Str s)"

definition user_doc :: "user \<Rightarrow> doc" where
  "user_doc u =
     [(''_id'', Id (u_id u)), (''email'', Str (u_email u)), (''password'', Str (u_password u)),
      (''name'', nullable_str (u_name u)), (''role'', nullable_str (u_role u)),
      (''refreshToken'', nullable_str (u_refreshToken u))]"

definition select_without :: "string list \<Rightarrow> doc \<Rightarrow> doc" where
  "select_without excluded d = filter (\<lambda>(k, v). k \<notin> set excluded) d"

definition sensitive :: "string list" where
  "sensitive = [''password'', ''refreshToken'']"

record event_view =
  v_id :: oid
  v_title :: jsstring
  v_description :: "jsstring option"
  v_startTime :: int
  v_endTime :: int
  v_location :: "jsstring option"
  v_organizer :: "doc option"
  v_attendees :: "doc list"

definition identity_summary :: "user \<Rightarrow> doc" where
  "identity_summary u = select_without sensitive (user_doc u)"

definition populate_user :: "store \<Rightarrow> oid \<Rightarrow> doc option" where
  "populate_user st i = map_option identity_summary (User_findById st i)"

definition populate :: "store \<Rightarrow> event \<Rightarrow> event_view" where
  "populate st e =
     \<lparr>v_id = e_id e, v_title = e_title e, v_description = e_description e,
      v_startTime = e_startTime e, v_endTime = e_endTime e, v_location = e_location e,
      v_organizer = populate_user st (e_organizer e),
      v_attendees = List.map_filter (populate_user st) (e_attendees e)\<rparr>"

section \<open>Responses\<close>

datatype body =
    Message string
  | MessageError string failure
  | Tokens string jsstring jsstring
  | AccessToken jsstring
  | CalendarList "calendar list"
  | MessageEvent string event
  | EventDetail event_view
  | EventList "event_view list"

record response =
  status :: nat
  body :: body

section \<open>Token issuer and auth gate\<close>

text \<open>
  The \<open>jsonwebtoken\<close> library is a parameter: \<open>jwt_sign\<close> makes a token from the claims,
  a secret and a lifetime; \<open>jwt_verify\<close> gives the decoded claims of a token it accepts
  under a secret at the time of the request, and \<open>None\<close> where it reports an error.
\<close>

datatype secret = JWT_SECRET | JWT_REFRESH_SECRET

record claims =
  cl_email :: jsstring
  cl_id :: oid
  cl_name :: "jsstring option"
  cl_role :: "jsstring option"

record jsonwebtoken =
  jwt_sign :: "claims \<Rightarrow> secret \<Rightarrow> string \<Rightarrow> jsstring"
  jwt_verify :: "jsstring \<Rightarrow> secret \<Rightarrow> claims option"

definition payload :: "user \<Rightarrow> claims" where
  "payload u = \<lparr>cl_email = u_email u, cl_id = u_id u, cl_name = u_name u, cl_role = u_role u\<rparr>"

definition generateAccessToken :: "jsonwebtoken \<Rightarrow> user \<Rightarrow> jsstring" where
  "generateAccessToken jwt u = jwt_sign jwt (payload u) JWT_SECRET ''7d''"


text \<open>The gate either answers the request itself or calls \<open>next()\<close> with \<open>req.user\<close> set.\<close>

datatype gate = Reject response | Next claims

text \<open>
  \<open>middlewares/auth.middleware.js\<close>: the revocation check reads the refresh token of the
  first document \<open>User.find({})\<close> returns; with no user at all, \<open>user[0].refreshToken\<close>
  throws and the \<open>catch\<close> answers 500.
\<close>

definition authMiddleware :: "jsonwebtoken \<Rightarrow> store \<Rightarrow> jsstring option \<Rightarrow> gate" where
  "authMiddleware jwt st authorization =
     (case authorization of
        None \<Rightarrow> Reject \<lparr>status = 403, body = Message ''No token provided''\<rparr>
      | Some token \<Rightarrow>
          if token = [] then Reject \<lparr>status = 403, body = Message ''No token provided''\<rparr>
          else
            (case users st of
               [] \<Rightarrow> Reject \<lparr>status = 500, body = Message ''Server error''\<rparr>
             | user0 # _ \<Rightarrow>
                 if falsy (u_refreshToken user0) then
                   Reject \<lparr>status = 403, body = Message ''Token has been revoked''\<rparr>
                 else
                   (case jwt_verify jwt token JWT_SECRET of
                      None \<Rightarrow> Reject \<lparr>status = 401, body = Message ''Invalid token''\<rparr>
                    | Some decoded \<Rightarrow> Next decoded)))"

text \<open>The variant that consults the blacklist (\<open>Blacklist.findOne({ token })\<close>).\<close>

definition authMiddleware_blacklist :: "jsonwebtoken \<Rightarrow> store \<Rightarrow> jsstring option \<Rightarrow> gate" where
  "authMiddleware_blacklist jwt st authorization =
     (case authorization of
        None \<Rightarrow> Reject \<lparr>status = 403, body = Message ''No token provided''\<rparr>
      | Some token \<Rightarrow>
          if token = [] then Reject \<lparr>status = 403, body = Message ''No token provided''\<rparr>
          else
            (case Blacklist_findOne st token of
               Some blacklistedToken \<Rightarrow>
                 Reject \<lparr>status = 403, body = Message ''Token has been revoked''\<rparr>
             | None \<Rightarrow>
                 (case jwt_verify jwt token JWT_SECRET of
                    None \<Rightarrow> Reject \<lparr>status = 401, body = Message ''Invalid token''\<rparr>
                  | Some decoded \<Rightarrow> Next decoded)))"

section \<open>Auth routes\<close>

text \<open>
  Request bodies carry the fields the routes destructure; the documented types are
  strings. A field a route reads before it answers may also be absent or \<open>null\<close> (\<open>None\<close>);
  one that is present is a string. The email of a registration is a string: the routes
  are studied at emails that belong to stored identities. \<open>bcrypt.hash\<close> is a parameter
  (\<open>None\<close> where it reports an error), and so is the \<open>_id\<close> the driver gives a new document.
\<close>





text \<open>\<open>POST /refresh-token\<close> of \<open>routes/auth.routes.js\<close>. The route writes nothing.\<close>

definition post_refresh_token ::
  "jsonwebtoken \<Rightarrow> store \<Rightarrow> jsstring option \<Rightarrow> response \<times> store" where
  "post_refresh_token jwt st refreshToken =
     (case refreshToken of
        None \<Rightarrow> (\<lparr>status = 401, body = Message ''Refresh token required''\<rparr>, st)
      | Some token \<Rightarrow>
          if token = [] then (\<lparr>status = 401, body = Message ''Refresh token required''\<rparr>, st)
          else
            (case User_findOne_refreshToken st token of
               None \<Rightarrow> (\<lparr>status = 403, body = Message ''Invalid refresh token''\<rparr>, st)
             | Some user \<Rightarrow>
                 (case jwt_verify jwt token JWT_REFRESH_SECRET of
                    None \<Rightarrow> (\<lparr>status = 403, body = Message ''Invalid refresh token''\<rparr>, st)
                  | Some decoded \<Rightarrow>
                      (\<lparr>status = 200, body = AccessToken (generateAccessToken jwt user)\<rparr>, st))))"

text \<open>
  The earlier variants of the route have the same text but never import \<open>jsonwebtoken\<close>:
  once a user holds the presented token, \<open>jwt.verify\<close> throws a \<open>ReferenceError\<close> and the
  \<open>catch\<close> answers 500.
\<close>

definition post_refresh_token_unimported :: "store \<Rightarrow> jsstring option \<Rightarrow> response \<times> store" where
  "post_refresh_token_unimported st refreshToken =
     (case refreshToken of
        None \<Rightarrow> (\<lparr>status = 401, body = Message ''Refresh token required''\<rparr>, st)
      | Some token \<Rightarrow>
          if token = [] then (\<lparr>status = 401, body = Message ''Refresh token required''\<rparr>, st)
          else
            (case User_findOne_refreshToken st token of
               None \<Rightarrow> (\<lparr>status = 403, body = Message ''Invalid refresh token''\<rparr>, st)
             | Some user \<Rightarrow>
                 (\<lparr>status = 500, body = MessageError ''Server error'' ReferenceError\<rparr>, st)))"

text \<open>
  \<open>POST /logout\<close> of \<open>routes/auth.routes.js\<close>: the token is blacklisted and the first user
  holding it loses it (\<open>updateOne\<close>). \<open>now\<close> is \<open>Date.now()\<close>.
\<close>

fun updateOne :: "('a \<Rightarrow> bool) \<Rightarrow> ('a \<Rightarrow> 'a) \<Rightarrow> 'a list \<Rightarrow> 'a list" where
  "updateOne P f [] = []"
| "updateOne P f (x # xs) = (if P x then f x # xs else x # updateOne P f xs)"

definition post_logout :: "int \<Rightarrow> store \<Rightarrow> jsstring option \<Rightarrow> response \<times> store" where
  "post_logout now st refreshToken =
     (case refreshToken of
        None \<Rightarrow> (\<lparr>status = 401, body = Message ''Refresh token required''\<rparr>, st)
      | Some token \<Rightarrow>
          if token = [] then (\<lparr>status = 401, body = Message ''Refresh token required''\<rparr>, st)
          else
            (\<lparr>status = 200, body = Message ''Logged out successfully''\<rparr>,
             st\<lparr>blacklist := blacklist st @ [\<lparr>b_token = token, b_expiresAt = now\<rparr>],
                users := updateOne (\<lambda>u. u_refreshToken u = Some token)
                           (\<lambda>u. u\<lparr>u_refreshToken := None\<rparr>) (users st)\<rparr>))"

section \<open>Calendar routes\<close>

text \<open>The handlers run behind the gate; \<open>userId\<close> is \<open>req.user.id\<close>.\<close>

definition get_calendars :: "store \<Rightarrow> oid \<Rightarrow> response" where
  "get_calendars st userId = \<lparr>status = 200, body = CalendarList (Calendar_find_owner st userId)\<rparr>"

text \<open>\<open>findOneAndDelete({ _id: calendarId, owner: userId })\<close> removes the first match.\<close>

definition delete_calendar :: "store \<Rightarrow> oid \<Rightarrow> oid \<Rightarrow> response \<times> store" where
  "delete_calendar st userId calendarId =
     (case find (\<lambda>c. c_id c = calendarId \<and> c_owner c = userId) (calendars st) of
        None \<Rightarrow> (\<lparr>status = 404, body = Message ''Calendar not found''\<rparr>, st)
      | Some calendar \<Rightarrow>
          (\<lparr>status = 200, body = Message ''Calendar deleted successfully''\<rparr>,
           st\<lparr>calendars := remove1 calendar (calendars st)\<rparr>))"

section \<open>Event routes\<close>

text \<open>
  The body of \<open>POST /:calendarId/events\<close>. \<open>startTime\<close> and \<open>endTime\<close> are the time values
  the schema casts the given values to (\<open>None\<close> when absent or not a date).
\<close>

record event_body =
  r_title :: "jsstring option"
  r_description :: "jsstring option"
  r_startTime :: "int option"
  r_endTime :: "int option"
  r_location :: "jsstring option"
  r_attendees :: "oid list"

text \<open>\<open>String.prototype.trim\<close>, the setter of a schema string with \<open>trim: true\<close>.\<close>

definition trim :: "jsstring \<Rightarrow> jsstring" where
  "trim s =
     rev (dropWhile (\<lambda>c. in_ranges c whitespace) (rev (dropWhile (\<lambda>c. in_ranges c whitespace) s)))"

text \<open>
  \<open>new Event({...})\<close> as \<open>save\<close> accepts it: the string setters have trimmed \<open>title\<close>,
  \<open>description\<close> and \<open>location\<close>; the required \<open>title\<close> (not empty once trimmed), \<open>startTime\<close>
  and \<open>endTime\<close> are present. Otherwise \<open>save\<close> throws a validation error.
\<close>

definition new_Event :: "oid \<Rightarrow> oid \<Rightarrow> event_body \<Rightarrow> failure + event" where
  "new_Event newId userId b =
     (case (map_option trim (r_title b), r_startTime b, r_endTime b) of
        (Some title, Some startTime, Some endTime) \<Rightarrow>
          if title = [] then Inl ValidationError
          else Inr \<lparr>e_id = newId, e_title = title,
                 e_description = map_option trim (r_description b),
                 e_startTime = startTime, e_endTime = endTime,
                 e_location = map_option trim (r_location b),
                 e_organizer = userId, e_attendees = r_attendees b\<rparr>
      | _ \<Rightarrow> Inl ValidationError)"

definition access_denied :: response where
  "access_denied =
     \<lparr>status = 403, body = Message ''Access denied, you don't own this calendar''\<rparr>"

definition post_event :: "oid \<Rightarrow> store \<Rightarrow> oid \<Rightarrow> oid \<Rightarrow> event_body \<Rightarrow> response \<times> store" where
  "post_event newId st userId calendarId b =
     (case Calendar_findById st calendarId of
        None \<Rightarrow> (access_denied, st)
      | Some calendar \<Rightarrow>
          if c_owner calendar \<noteq> userId then (access_denied, st)
          else
            (case new_Event newId userId b of
               Inl err \<Rightarrow>
                 (\<lparr>status = 500,
                   body = MessageError ''Server error during event creation'' err\<rparr>, st)
             | Inr newEvent \<Rightarrow>
                 (case Event_insert st newEvent of
                    Inl err \<Rightarrow>
                      (\<lparr>status = 500,
                        body = MessageError ''Server error during event creation'' err\<rparr>, st)
                  | Inr st1 \<Rightarrow>
                      (\<lparr>status = 201,
                        body = MessageEvent ''Event created successfully'' newEvent\<rparr>,
                       Calendar_save st1
                         (calendar\<lparr>c_events := c_events calendar @ [e_id newEvent]\<rparr>)))))"

definition get_event :: "store \<Rightarrow> oid \<Rightarrow> response" where
  "get_event st eventId =
     (case Event_findById st eventId of
        None \<Rightarrow> \<lparr>status = 404, body = Message ''Event not found''\<rparr>
      | Some event \<Rightarrow> \<lparr>status = 200, body = EventDetail (populate st event)\<rparr>)"

text \<open>
  \<open>DELETE /:calendarId/events/:eventId\<close>, the variant that checks the calendar's list.
  \<open>calendar.events\<close> is a Mongoose array: its \<open>includes\<close> compares the given id with the
  stored references by their string form, and \<open>pull\<close> removes every occurrence of the id.
\<close>

definition delete_event :: "store \<Rightarrow> oid \<Rightarrow> oid \<Rightarrow> oid \<Rightarrow> response \<times> store" where
  "delete_event st userId calendarId eventId =
     (case Calendar_findById st calendarId of
        None \<Rightarrow> (access_denied, st)
      | Some calendar \<Rightarrow>
          if c_owner calendar \<noteq> userId then (access_denied, st)
          else if eventId \<notin> set (c_events calendar) then
            (\<lparr>status = 404, body = Message ''Event not found in this calendar''\<rparr>, st)
          else
            (\<lparr>status = 200, body = Message ''Event removed from calendar successfully''\<rparr>,
             Calendar_save st (calendar\<lparr>c_events := removeAll eventId (c_events calendar)\<rparr>)))"

text \<open>The other variant: \<open>Event.findByIdAndDelete\<close> first, then the reference is pulled.\<close>

definition delete_event_record :: "store \<Rightarrow> oid \<Rightarrow> oid \<Rightarrow> oid \<Rightarrow> response \<times> store" where
  "delete_event_record st userId calendarId eventId =
     (case Calendar_findById st calendarId of
        None \<Rightarrow> (access_denied, st)
      | Some calendar \<Rightarrow>
          if c_owner calendar \<noteq> userId then (access_denied, st)
          else
            (case Event_findById st eventId of
               None \<Rightarrow> (\<lparr>status = 404, body = Message ''Event not found''\<rparr>, st)
             | Some event \<Rightarrow>
                 (\<lparr>status = 200, body = Message ''Event deleted successfully''\<rparr>,
                  Calendar_save (st\<lparr>events := remove1 event (events st)\<rparr>)
                    (calendar\<lparr>c_events := removeAll (e_id event) (c_events calendar)\<rparr>))))"

subsection \<open>Day lookup\<close>

text \<open>
  \<open>Date\<close> arithmetic on time values. The host's time zone is a parameter, the local time
  zone adjustment of the language definition: \<open>LocalTZA t True\<close> is the offset in
  milliseconds at the instant \<open>t\<close>, \<open>LocalTZA t False\<close> the offset at the local time \<open>t\<close>; a
  zone without daylight saving gives the same offset everywhere (\<open>fixed_offset\<close>). A time
  value beyond the range of \<open>Date\<close> is \<open>NaN\<close> (\<open>None\<close>). \<open>setHours\<close> keeps the local day of
  its date and replaces the time within the day.
\<close>

definition msPerDay :: int where
  "msPerDay = 86400000"

definition TimeClip :: "int \<Rightarrow> int option" where
  "TimeClip t = (if 8640000000000000 < \<bar>t\<bar> then None else Some t)"

definition setHours ::
  "(int \<Rightarrow> bool \<Rightarrow> int) \<Rightarrow> int \<Rightarrow> int \<Rightarrow> int \<Rightarrow> int \<Rightarrow> int \<Rightarrow> int option" where
  "setHours LocalTZA t h m s ms =
     (let local = t + LocalTZA t True;
          date = (local div msPerDay) * msPerDay + (h * 3600000 + m * 60000 + s * 1000 + ms)
      in TimeClip (date - LocalTZA date False))"

definition fixed_offset :: "int \<Rightarrow> int \<Rightarrow> bool \<Rightarrow> int" where
  "fixed_offset tza t isUTC = tza"

text \<open>
  The queries the handler sends to the events collection, in order (the population of
  the users of the events found belongs to the query).
\<close>

datatype query = Event_find oid int int

text \<open>
  \<open>GET /events/day/:date\<close>. \<open>Date_parse\<close> is the host's \<open>new Date(string)\<close>: the time value,
  or \<open>None\<close> for an invalid date (\<open>getTime()\<close> is \<open>NaN\<close>). The second \<open>setHours\<close> works on the
  date the first one has already moved to the start of its day; on a date the first one
  has made invalid it gives \<open>NaN\<close> again. An invalid date in the filter makes
  \<open>Event.find\<close> throw when it casts the filter, before anything is sent, and the \<open>catch\<close>
  answers 500.
\<close>

definition get_events_day ::
  "(jsstring \<Rightarrow> int option) \<Rightarrow> (int \<Rightarrow> bool \<Rightarrow> int) \<Rightarrow> store \<Rightarrow> oid \<Rightarrow> jsstring
     \<Rightarrow> response \<times> query list" where
  "get_events_day Date_parse LocalTZA st userId date =
     (case Date_parse date of
        None \<Rightarrow> (\<lparr>status = 400, body = Message ''Invalid date format''\<rparr>, [])
      | Some providedDate \<Rightarrow>
          (let startOfDay = setHours LocalTZA providedDate 0 0 0 0;
               endOfDay = (case startOfDay of
                             None \<Rightarrow> None
                           | Some moved \<Rightarrow> setHours LocalTZA moved 23 59 59 999)
           in case (startOfDay, endOfDay) of
                (Some gte, Some lt) \<Rightarrow>
                  (let found = filter (\<lambda>e. e_organizer e = userId \<and>
                                        gte \<le> e_startTime e \<and> e_startTime e < lt)
                                 (events st)
                   in (if length found = 0 then
                         \<lparr>status = 404,
                           body = Message ''No events found for the specified date''\<rparr>
                       else \<lparr>status = 200, body = EventList (map (populate st) found)\<rparr>,
                       [Event_find userId gte lt]))
              | _ \<Rightarrow>
                  (\<lparr>status = 500,
                    body = MessageError ''Server error during event retrieval'' CastError\<rparr>,
                   [])))"

section \<open>Example states\<close>

text \<open>
  Two registered identities, Alice first, both logged in. In \<open>alice_logged_out\<close> Alice has
  logged out: her refresh token is cleared and blacklisted. The example token library
  accepts the access tokens of both and Bob's refresh token.
\<close>

definition alice :: user where
  "alice = \<lparr>u_id = 1, u_email = js ''alice@example.com'', u_password = js ''hash-a'',
     u_name = Some (js ''Alice''), u_role = None, u_refreshToken = Some (js ''alice.refresh'')\<rparr>"

definition alice_out :: user where
  "alice_out = alice\<lparr>u_refreshToken := None\<rparr>"

definition bob :: user where
  "bob = \<lparr>u_id = 2, u_email = js ''bob@example.com'', u_password = js ''hash-b'',
     u_name = Some (js ''Bob''), u_role = None, u_refreshToken = Some (js ''bob.refresh'')\<rparr>"

definition example_jwt :: jsonwebtoken where
  "example_jwt =
     \<lparr>jwt_sign = (\<lambda>c secret lifetime.
        (if secret = JWT_SECRET then js ''access.'' else js ''refresh.'') @ cl_email c),
      jwt_verify = (\<lambda>token secret.
        if secret = JWT_SECRET \<and> token = js ''alice.access'' then Some (payload alice)
        else if secret = JWT_SECRET \<and> token = js ''bob.access'' then Some (payload bob)
        else if secret = JWT_REFRESH_SECRET \<and> token = js ''bob.refresh'' then Some (payload bob)
        else None)\<rparr>"

definition both_logged_in :: store where
  "both_logged_in = \<lparr>users = [alice, bob], calendars = [], events = [], blacklist = []\<rparr>"

definition alice_logged_out :: store where
  "alice_logged_out =
     \<lparr>users = [alice_out, bob], calendars = [], events = [],
      blacklist = [\<lparr>b_token = js ''alice.refresh'', b_expiresAt = 1698019200000\<rparr>]\<rparr>"

definition alice_registered_second :: store where
  "alice_registered_second = alice_logged_out\<lparr>users := [bob, alice_out]\<rparr>"

text \<open>
  Bob owns a calendar. The body \<open>standup\<close> has a title with a leading space, a start at
  2023-10-23T09:00Z and an end at 09:30Z; \<open>standup_event\<close> is the event it creates under the
  id 30. The date of the day lookup is 2023-10-23, parsed as the ISO
  date-only form is: midnight UTC. \<open>late_event\<close> starts at 2023-10-23T23:59:59.999Z;
  \<open>previous_evening\<close> starts at 2023-10-23T04:59:00Z, which is 23:59 on 2023-10-22 five
  hours west of UTC.
\<close>

definition bobs_calendar :: calendar where
  "bobs_calendar = \<lparr>c_id = 10, c_name = js ''Work'', c_owner = 2, c_events = []\<rparr>"

definition with_calendar :: store where
  "with_calendar = both_logged_in\<lparr>calendars := [bobs_calendar]\<rparr>"

definition standup :: event_body where
  "standup = \<lparr>r_title = Some (js '' Standup''), r_description = None,
     r_startTime = Some 1698051600000, r_endTime = Some 1698053400000, r_location = None,
     r_attendees = []\<rparr>"

definition standup_event :: event where
  "standup_event = \<lparr>e_id = 30, e_title = js ''Standup'', e_description = None,
     e_startTime = 1698051600000, e_endTime = 1698053400000, e_location = None,
     e_organizer = 2, e_attendees = []\<rparr>"

definition with_standup :: store where
  "with_standup =
     with_calendar\<lparr>calendars := [bobs_calendar\<lparr>c_events := [30]\<rparr>], events := [standup_event]\<rparr>"

definition parse_2023_10_23 :: "jsstring \<Rightarrow> int option" where
  "parse_2023_10_23 s = (if s = js ''2023-10-23'' then Some 1698019200000 else None)"

text \<open>The last day a \<open>Date\<close> can hold starts at the time value 8640000000000000.\<close>

definition parse_last_day :: "jsstring \<Rightarrow> int option" where
  "parse_last_day s = (if s = js ''+275760-09-13'' then Some 8640000000000000 else None)"

definition late_event :: event where
  "late_event = \<lparr>e_id = 20, e_title = js ''Late'', e_description = None,
     e_startTime = 1698105599999, e_endTime = 1698105600000, e_location = None,
     e_organizer = 2, e_attendees = []\<rparr>"

definition previous_evening :: event where
  "previous_evening = \<lparr>e_id = 21, e_title = js ''Evening'', e_description = None,
     e_startTime = 1698037140000, e_endTime = 1698037200000, e_location = None,
     e_organizer = 2, e_attendees = []\<rparr>"

definition with_late_event :: store where
  "with_late_event =
     both_logged_in\<lparr>calendars := [bobs_calendar\<lparr>c_events := [20]\<rparr>], events := [late_event]\<rparr>"

definition with_two_events :: store where
  "with_two_events =
     both_logged_in\<lparr>calendars := [bobs_calendar\<lparr>c_events := [20, 21]\<rparr>],
       events := [late_event, previous_evening]\<rparr>"

section \<open>Properties of the matcher\<close>

lemma nullable_lang: "nullable r \<longleftrightarrow> [] \<in> lang r"
  by (induction r) (auto intro: reps.reps_nil)

lemma reps_Cons:
  "c # w \<in> reps L \<longleftrightarrow> (\<exists>u v. w = u @ v \<and> c # u \<in> L \<and> v \<in> reps L)"
proof
  assume "c # w \<in> reps L"
  then have "\<And>x. x = c # w \<Longrightarrow> x \<in> reps L \<Longrightarrow>
      \<exists>u v. w = u @ v \<and> c # u \<in> L \<and> v \<in> reps L"
  proof -
    fix x assume eq: "x = c # w" and mem: "x \<in> reps L"
    from mem eq show "\<exists>u v. w = u @ v \<and> c # u \<in> L \<and> v \<in> reps L"
    proof (induction x rule: reps.induct)
      case reps_nil
      then show ?case by simp
    next
      case (reps_app u v)
      show ?case
      proof (cases u)
        case Nil
        with reps_app show ?thesis by simp
      next
        case (Cons a u')
        with reps_app have "w = u' @ v" "c # u' \<in> L" by simp_all
        with reps_app(2) show ?thesis by blast
      qed
    qed
  qed
  with \<open>c # w \<in> reps L\<close> show "\<exists>u v. w = u @ v \<and> c # u \<in> L \<and> v \<in> reps L" by blast
next
  assume "\<exists>u v. w = u @ v \<and> c # u \<in> L \<and> v \<in> reps L"
  then obtain u v where "w = u @ v" "c # u \<in> L" "v \<in> reps L" by blast
  then have "(c # u) @ v \<in> reps L" by (blast intro: reps.reps_app)
  with \<open>w = u @ v\<close> show "c # w \<in> reps L" by simp
qed

lemma deriv_lang: "w \<in> lang (deriv c r) \<longleftrightarrow> c # w \<in> lang r"
proof (induction r arbitrary: w)
  case (Seq r s)
  show ?case
  proof (cases "nullable r")
    case True
    then have "[] \<in> lang r" by (simp add: nullable_lang)
    with Seq True show ?thesis
      by (auto simp: Cons_eq_append_conv)
  next
    case False
    then have "[] \<notin> lang r" by (simp add: nullable_lang)
    with Seq False show ?thesis
      by (auto simp: Cons_eq_append_conv)
  qed
next
  case (Many r)
  then show ?case by (auto simp: reps_Cons)
qed auto

theorem matches_lang: "matches r w \<longleftrightarrow> w \<in> lang r"
  by (induction w arbitrary: r) (simp_all add: nullable_lang deriv_lang)

lemma reps_class: "reps {[c] | c. P c} = {w. list_all P w}"
proof (rule set_eqI, rule iffI)
  fix w assume "w \<in> reps {[c] | c. P c}"
  then show "w \<in> {w. list_all P w}"
    by (induction rule: reps.induct) auto
next
  fix w assume "w \<in> {w. list_all P w}"
  then have "list_all P w" by simp
  then show "w \<in> reps {[c] | c. P c}"
  proof (induction w)
    case Nil
    show ?case by (rule reps.reps_nil)
  next
    case (Cons a w)
    then have "[a] \<in> {[c] | c. P c}" and "w \<in> reps {[c] | c. P c}" by simp_all
    then have "[a] @ w \<in> reps {[c] | c. P c}" by (rule reps.reps_app)
    then show ?case by simp
  qed
qed

lemma lang_AnyChars: "lang AnyChars = UNIV"
  using reps_class [of "\<lambda>c. True"] by (simp add: AnyChars_def in_ranges_def list_all_iff)

lemma lang_OneOrMore_Class:
  "lang (OneOrMore (Class k)) = {w. w \<noteq> [] \<and> list_all (class_has k) w}"
proof (rule set_eqI, rule iffI)
  fix w assume "w \<in> lang (OneOrMore (Class k))"
  then show "w \<in> {w. w \<noteq> [] \<and> list_all (class_has k) w}"
    by (auto simp: OneOrMore_def reps_class)
next
  fix w assume "w \<in> {w. w \<noteq> [] \<and> list_all (class_has k) w}"
  then obtain c w' where w: "w = c # w'" and c: "class_has k c" and w': "list_all (class_has k) w'"
    by (cases w) auto
  have "[c] @ w' \<in> lang (OneOrMore (Class k))"
    unfolding OneOrMore_def lang.simps reps_class using c w' by blast
  then show "w \<in> lang (OneOrMore (Class k))" using w by simp
qed

lemma test_unanchored_class:
  "RegExp_test (RegExp False (Class k) False) s = list_ex (class_has k) s"
proof
  assume "RegExp_test (RegExp False (Class k) False) s"
  then obtain u c v where "s = u @ [c] @ v" "class_has k c"
    by (auto simp: matches_lang lang_AnyChars)
  then show "list_ex (class_has k) s" by (auto simp: list_ex_iff)
next
  assume "list_ex (class_has k) s"
  then obtain c where "c \<in> set s" "class_has k c" by (auto simp: list_ex_iff)
  then obtain u v where s: "s = u @ c # v" by (auto simp: in_set_conv_decomp)
  have "u @ ([c] @ v) \<in> lang (Seq AnyChars (Seq (Class k) AnyChars))"
    unfolding lang.simps lang_AnyChars using \<open>class_has k c\<close> by blast
  then show "RegExp_test (RegExp False (Class k) False) s"
    using s by (simp add: matches_lang)
qed

lemma plain_class: "class_has (NotIn (whitespace @ [(0x40, 0x40)])) = plain_char"
  by (rule ext) (auto simp: plain_char_def in_ranges_def)

lemma test_emailRegex: "RegExp_test emailRegex e = email_shaped e"
proof -
  let ?P = "OneOrMore (Class (NotIn (whitespace @ [(0x40, 0x40)])))"
  have P: "lang ?P = {w. w \<noteq> [] \<and> list_all plain_char w}"
    by (simp add: lang_OneOrMore_Class plain_class)
  have L: "\<And>c. lang (Lit c) = {[c]}"
    by (auto simp: Lit_def in_ranges_def)
  have "RegExp_test emailRegex e \<longleftrightarrow>
      e \<in> lang (Seq ?P (Seq (Lit 0x40) (Seq ?P (Seq (Lit 0x2E) ?P))))"
    by (auto simp: emailRegex_def matches_lang)
  also have "\<dots> \<longleftrightarrow> email_shaped e"
  proof
    assume "e \<in> lang (Seq ?P (Seq (Lit 0x40) (Seq ?P (Seq (Lit 0x2E) ?P))))"
    then show "email_shaped e"
      unfolding lang.simps(4) P L email_shaped_def by auto
  next
    assume "email_shaped e"
    then obtain a b c where e: "e = a @ [0x40] @ b @ [0x2E] @ c"
      and abc: "a \<in> lang ?P" "b \<in> lang ?P" "c \<in> lang ?P"
      unfolding email_shaped_def P by auto
    have "[0x2E] @ c \<in> lang (Seq (Lit 0x2E) ?P)"
      unfolding lang.simps(4) L using abc(3) by blast
    with abc(2) have "b @ ([0x2E] @ c) \<in> lang (Seq ?P (Seq (Lit 0x2E) ?P))"
      unfolding lang.simps(4) by blast
    then have "[0x40] @ (b @ [0x2E] @ c) \<in> lang (Seq (Lit 0x40) (Seq ?P (Seq (Lit 0x2E) ?P)))"
      unfolding lang.simps(4) [of "Lit 0x40"] L by blast
    with abc(1) have "a @ ([0x40] @ b @ [0x2E] @ c)
        \<in> lang (Seq ?P (Seq (Lit 0x40) (Seq ?P (Seq (Lit 0x2E) ?P))))"
      unfolding lang.simps(4) [of ?P "Seq (Lit 0x40) _"] by blast
    with e show "e \<in> lang (Seq ?P (Seq (Lit 0x40) (Seq ?P (Seq (Lit 0x2E) ?P))))"
      by simp
  qed
  finally show ?thesis .
qed


lemma class_range: "class_has (In [(lo, hi)]) = (\<lambda>c. lo \<le> c \<and> c \<le> hi)"
  by (rule ext) (simp add: in_ranges_def)

lemma class_listed: "class_has (In (map (\<lambda>c. (c, c)) cs)) = (\<lambda>c. c \<in> set cs)"
  by (rule ext) (auto simp: in_ranges_def list_ex_iff)

lemma test_uppercaseRegex:
  "RegExp_test uppercaseRegex p = list_ex (\<lambda>c. 0x41 \<le> c \<and> c \<le> 0x5A) p"
  unfolding uppercaseRegex_def test_unanchored_class class_range ..

lemma test_lowercaseRegex:
  "RegExp_test lowercaseRegex p = list_ex (\<lambda>c. 0x61 \<le> c \<and> c \<le> 0x7A) p"
  unfolding lowercaseRegex_def test_unanchored_class class_range ..

lemma test_digitRegex:
  "RegExp_test digitRegex p = list_ex (\<lambda>c. 0x30 \<le> c \<and> c \<le> 0x39) p"
  unfolding digitRegex_def test_unanchored_class class_range ..

lemma test_specialCharRegex:
  "RegExp_test specialCharRegex p = list_ex (\<lambda>c. c \<in> set specialChars) p"
  unfolding specialCharRegex_def test_unanchored_class class_listed ..

section \<open>The credential validator\<close>

text \<open>
  C4. For every email string and password string, \<open>validateUserCredentials\<close> is a function of
  its two arguments alone that returns \<open>null\<close> (\<open>None\<close>) when every rule passes and
  otherwise exactly the message of the first failing rule in the fixed order: email
  pattern, length at least 8, an uppercase letter, a lowercase letter, a digit, a special
  character; later failures are not reported. The rules are those of \<open>credential_rules\<close>,
  stated on the characters of the strings.
\<close>

theorem validateUserCredentials_first_violation:
  "validateUserCredentials email password = first_violation email password"
  by (simp add: validateUserCredentials_def first_violation_def credential_rules_def
      test_emailRegex test_uppercaseRegex test_lowercaseRegex test_digitRegex
      test_specialCharRegex minLength_def not_less)

text \<open>
  Several rules failing at once: the password \<open>abc\<close> is too short and has no uppercase
  letter, digit or special character; only the length is reported. With a malformed email
  the email message wins over every password rule.
\<close>

lemma validateUserCredentials_examples:
  "validateUserCredentials (js ''test@example.com'') (js ''Passw0rd!'') = None"
  "validateUserCredentials (js ''test@example.com'') (js ''abc'') =
     Some ''Password must be at least 8 characters long''"
  "validateUserCredentials (js ''test@example.com'') (js ''password'') =
     Some ''Password must contain at least one uppercase letter''"
  "validateUserCredentials (js ''testexample.com'') (js ''abc'') = Some ''Invalid email format''"
  by code_simp+

lemma specialChars_literal:
  "specialChars = js ''!@#$%^&*(),.?'' @ [0x22] @ js '':{}|<>''"
  by (simp add: specialChars_def js_def)

section \<open>Lookups\<close>

lemma find_Some_set: "find P xs = Some x \<Longrightarrow> x \<in> set xs \<and> P x"
  by (induction xs) (auto split: if_splits)

lemma find_appended:
  assumes "\<forall>x\<in>set xs. \<not> P x" "P y"
  shows "find P (xs @ [y]) = Some y"
  using assms by (induction xs) auto

lemma find_Some_b_token:
  "(\<exists>r. find (\<lambda>b. b_token b = token) bs = Some r) \<longleftrightarrow> token \<in> b_token ` set bs"
  by (induction bs) auto

lemma find_replaced:
  assumes "c_id c' = i"
  shows "find (\<lambda>d. c_id d = i) (map (\<lambda>d. if c_id d = i then c' else d) cs) =
           (if \<exists>d\<in>set cs. c_id d = i then Some c' else None)"
  using assms by (induction cs) auto

lemma Calendar_findById_id: "Calendar_findById st i = Some c \<Longrightarrow> c_id c = i"
  by (auto simp: Calendar_findById_def dest: find_Some_set)

lemma Calendar_findById_save:
  assumes "Calendar_findById st (c_id c') = Some c"
  shows "Calendar_findById (Calendar_save st c') (c_id c') = Some c'"
proof -
  from assms have "\<exists>d\<in>set (calendars st). c_id d = c_id c'"
    by (auto simp: Calendar_findById_def dest: find_Some_set)
  then show ?thesis
    by (simp add: Calendar_findById_def Calendar_save_def find_replaced)
qed

section \<open>The auth gate\<close>

text \<open>
  The variant that consults the blacklist answers 403 "Token has been revoked" exactly
  when the presented token is recorded there, and otherwise goes on to verify it.
\<close>

lemma authMiddleware_blacklist_revoked_iff:
  assumes "token \<noteq> []"
  shows "authMiddleware_blacklist jwt st (Some token) =
           Reject \<lparr>status = 403, body = Message ''Token has been revoked''\<rparr>
         \<longleftrightarrow> token \<in> b_token ` set (blacklist st)"
  using assms find_Some_b_token [of token "blacklist st"]
  by (auto simp: authMiddleware_blacklist_def Blacklist_findOne_def split: option.splits)

lemma authMiddleware_blacklist_verifies:
  assumes "token \<noteq> []" "token \<notin> b_token ` set (blacklist st)"
  shows "authMiddleware_blacklist jwt st (Some token) =
           (case jwt_verify jwt token JWT_SECRET of
              None \<Rightarrow> Reject \<lparr>status = 401, body = Message ''Invalid token''\<rparr>
            | Some decoded \<Rightarrow> Next decoded)"
  using assms find_Some_b_token [of token "blacklist st"]
  by (auto simp: authMiddleware_blacklist_def Blacklist_findOne_def split: option.splits)

text \<open>
  The gate of \<open>middlewares/auth.middleware.js\<close> answers 403 "Token has been revoked" exactly
  when the first stored user has no refresh token, whoever presents the token.
\<close>

lemma authMiddleware_revoked_iff:
  assumes "token \<noteq> []"
  shows "authMiddleware jwt st (Some token) =
           Reject \<lparr>status = 403, body = Message ''Token has been revoked''\<rparr>
         \<longleftrightarrow> (\<exists>user0 rest. users st = user0 # rest \<and> falsy (u_refreshToken user0))"
  using assms by (auto simp: authMiddleware_def split: option.splits list.splits)

text \<open>The state \<open>alice_logged_out\<close> arises when Alice logs out while Bob is logged in.\<close>

lemma alice_logged_out_reachable:
  "post_logout 1698019200000 both_logged_in (Some (js ''alice.refresh'')) =
     (\<lparr>status = 200, body = Message ''Logged out successfully''\<rparr>, alice_logged_out)"
  by (simp add: post_logout_def both_logged_in_def alice_logged_out_def alice_out_def
      alice_def bob_def js_def)

text \<open>
  C1. For every protected-route request carrying a bearer token, the auth gate rejects
  with status 403 and message "Token has been revoked" exactly when the presented token is
  found revoked (recorded in the revocation store or, in the other variant, when the
  identity the token belongs to has a null refresh token); a token that is not revoked
  goes on to signature verification.

  The gate of \<open>middlewares/auth.middleware.js\<close> breaks this. In \<open>alice_logged_out\<close> Bob
  presents his access token: the token verifies, it is not blacklisted, and Bob's identity
  holds a refresh token; the gate still answers 403 "Token has been revoked", because it
  reads the refresh token of the first user stored, Alice.
\<close>

theorem authMiddleware_rejects_unrevoked_token:
  "authMiddleware example_jwt alice_logged_out (Some (js ''bob.access'')) =
     Reject \<lparr>status = 403, body = Message ''Token has been revoked''\<rparr>
   \<and> jwt_verify example_jwt (js ''bob.access'') JWT_SECRET = Some (payload bob)
   \<and> User_findById alice_logged_out (cl_id (payload bob)) = Some bob
   \<and> u_refreshToken bob = Some (js ''bob.refresh'')
   \<and> Blacklist_findOne alice_logged_out (js ''bob.access'') = None"
  by (simp add: authMiddleware_def alice_logged_out_def alice_out_def alice_def bob_def
      example_jwt_def js_def payload_def User_findById_def Blacklist_findOne_def)

text \<open>
  The other way round: with Bob stored first, the logged-out Alice (her identity has a
  null refresh token) passes the gate with an access token that still verifies.
\<close>

lemma authMiddleware_admits_logged_out_identity:
  "authMiddleware example_jwt alice_registered_second (Some (js ''alice.access'')) =
     Next (payload alice)
   \<and> User_findById alice_registered_second (cl_id (payload alice)) = Some alice_out
   \<and> u_refreshToken alice_out = None"
  by (simp add: authMiddleware_def alice_registered_second_def alice_logged_out_def
      alice_out_def alice_def bob_def example_jwt_def js_def payload_def User_findById_def)

section \<open>Registration and token refresh\<close>






text \<open>
  The refresh route of the earlier variants writes nothing either, and never answers
  200.
\<close>

lemma post_refresh_token_unimported_frame:
  "snd (post_refresh_token_unimported st refreshToken) = st
   \<and> status (fst (post_refresh_token_unimported st refreshToken)) \<in> {401, 403, 500}"
  by (simp add: post_refresh_token_unimported_def split: option.splits)

text \<open>
  C6. For every successful refresh-token exchange, the response carries a newly issued
  access token only, and the identity's stored refresh token, with every other field of
  every identity, is unchanged: the route returns the store it was given, and a 200
  response is the access token issued for the user that holds the presented token.
\<close>

theorem post_refresh_token_frame:
  assumes "post_refresh_token jwt st refreshToken = (resp, st')"
  shows "st' = st
       \<and> (status resp = 200 \<longrightarrow>
            (\<exists>token user. refreshToken = Some token \<and> user \<in> set (users st)
               \<and> u_refreshToken user = Some token
               \<and> body resp = AccessToken (generateAccessToken jwt user)))"
  using assms
  by (auto simp: post_refresh_token_def User_findOne_refreshToken_def
      split: option.splits if_splits dest: find_Some_set)

theorem post_refresh_token_frame_witness:
  "post_refresh_token example_jwt both_logged_in (Some (js ''bob.refresh'')) =
     (\<lparr>status = 200, body = AccessToken (js ''access.bob@example.com'')\<rparr>, both_logged_in)
   \<and> bob \<in> set (users both_logged_in)
   \<and> u_refreshToken bob = Some (js ''bob.refresh'')
   \<and> generateAccessToken example_jwt bob = js ''access.bob@example.com''"
proof -
  have run: "post_refresh_token example_jwt both_logged_in (Some (js ''bob.refresh'')) =
      (\<lparr>status = 200, body = AccessToken (js ''access.bob@example.com'')\<rparr>, both_logged_in)"
    by (simp add: post_refresh_token_def User_findOne_refreshToken_def both_logged_in_def
        alice_def bob_def example_jwt_def js_def generateAccessToken_def payload_def)
  from post_refresh_token_frame [OF run] run
  show ?thesis
    by (simp add: both_logged_in_def alice_def bob_def example_jwt_def js_def
        generateAccessToken_def payload_def)
qed

section \<open>Calendars\<close>

text \<open>
  C8. For every stored calendar \<open>C\<close> and every authenticated requester whose id differs
  from \<open>C\<close>'s owner, deleting \<open>C\<close> answers 404 and leaves the store as it was, so the owner's
  listing still returns \<open>C\<close>. Ids are unique within the collection.
\<close>

theorem delete_calendar_not_owner:
  assumes ids: "distinct (map c_id (calendars st))"
    and stored: "C \<in> set (calendars st)"
    and other: "c_owner C \<noteq> userId"
  shows "delete_calendar st userId (c_id C) =
           (\<lparr>status = 404, body = Message ''Calendar not found''\<rparr>, st)
       \<and> (\<exists>listed. get_calendars (snd (delete_calendar st userId (c_id C))) (c_owner C) =
              \<lparr>status = 200, body = CalendarList listed\<rparr> \<and> C \<in> set listed)"
proof -
  have "\<not> (\<exists>c. c \<in> set (calendars st) \<and> c_id c = c_id C \<and> c_owner c = userId)"
  proof
    assume "\<exists>c. c \<in> set (calendars st) \<and> c_id c = c_id C \<and> c_owner c = userId"
    then obtain c where c: "c \<in> set (calendars st)" "c_id c = c_id C" "c_owner c = userId"
      by blast
    from ids have "inj_on c_id (set (calendars st))" by (simp add: distinct_map)
    with c(1,2) stored have "c = C" by (auto dest: inj_onD)
    with c(3) other show False by simp
  qed
  then have none: "find (\<lambda>c. c_id c = c_id C \<and> c_owner c = userId) (calendars st) = None"
    by (simp add: find_None_iff)
  then have run: "delete_calendar st userId (c_id C) =
      (\<lparr>status = 404, body = Message ''Calendar not found''\<rparr>, st)"
    by (simp add: delete_calendar_def)
  moreover from stored have "C \<in> set (Calendar_find_owner st (c_owner C))"
    by (simp add: Calendar_find_owner_def)
  ultimately show ?thesis by (simp add: get_calendars_def)
qed

theorem delete_calendar_not_owner_witness:
  "distinct (map c_id (calendars with_calendar)) \<and> bobs_calendar \<in> set (calendars with_calendar)
   \<and> c_owner bobs_calendar \<noteq> 1
   \<and> delete_calendar with_calendar 1 10 =
       (\<lparr>status = 404, body = Message ''Calendar not found''\<rparr>, with_calendar)
   \<and> get_calendars (snd (delete_calendar with_calendar 1 10)) 2 =
       \<lparr>status = 200, body = CalendarList [bobs_calendar]\<rparr>"
proof -
  have h: "distinct (map c_id (calendars with_calendar))"
    "bobs_calendar \<in> set (calendars with_calendar)" "c_owner bobs_calendar \<noteq> 1"
    by (simp_all add: with_calendar_def both_logged_in_def bobs_calendar_def)
  from delete_calendar_not_owner [OF h] h show ?thesis
    by (simp add: get_calendars_def Calendar_find_owner_def with_calendar_def
        both_logged_in_def bobs_calendar_def)
qed

section \<open>Events\<close>

text \<open>
  C5. For every authenticated requester and every calendar that is not the requester's
  (its owner is someone else, or no calendar has the given id), creating an event answers
  403 and leaves the store as it was: no event is persisted and no calendar's event list
  grows.
\<close>

theorem post_event_not_owner:
  assumes "case Calendar_findById st calendarId of
             None \<Rightarrow> True | Some calendar \<Rightarrow> c_owner calendar \<noteq> userId"
  shows "post_event newId st userId calendarId b =
           (\<lparr>status = 403, body = Message ''Access denied, you don't own this calendar''\<rparr>, st)"
  using assms by (simp add: post_event_def access_denied_def split: option.splits)

theorem post_event_not_owner_witness:
  "Calendar_findById with_calendar 10 = Some bobs_calendar \<and> c_owner bobs_calendar \<noteq> 1
   \<and> Calendar_findById with_calendar 11 = None
   \<and> post_event 30 with_calendar 1 10 standup =
       (\<lparr>status = 403, body = Message ''Access denied, you don't own this calendar''\<rparr>,
        with_calendar)
   \<and> post_event 30 with_calendar 1 11 standup =
       (\<lparr>status = 403, body = Message ''Access denied, you don't own this calendar''\<rparr>,
        with_calendar)"
proof -
  have h: "Calendar_findById with_calendar 10 = Some bobs_calendar" "c_owner bobs_calendar \<noteq> 1"
    "Calendar_findById with_calendar 11 = None"
    by (simp_all add: Calendar_findById_def with_calendar_def both_logged_in_def
        bobs_calendar_def)
  from post_event_not_owner [where st = with_calendar and calendarId = 10 and userId = 1
      and newId = 30 and b = standup]
    post_event_not_owner [where st = with_calendar and calendarId = 11 and userId = 1
      and newId = 30 and b = standup] h
  show ?thesis by simp
qed

text \<open>
  C7. The delete route that checks presence, for a requester who owns the calendar: when
  the event id is not in the calendar's event list the answer is 404 and the store (event
  records and the calendar's list) is untouched; when it is, the answer is 200 and the id
  no longer occurs in the calendar's list, the event records being left as they were.
\<close>

theorem delete_event_checks_presence:
  assumes found: "Calendar_findById st calendarId = Some calendar"
    and owner: "c_owner calendar = userId"
  shows "(eventId \<notin> set (c_events calendar) \<longrightarrow>
            delete_event st userId calendarId eventId =
              (\<lparr>status = 404, body = Message ''Event not found in this calendar''\<rparr>, st))
       \<and> (eventId \<in> set (c_events calendar) \<longrightarrow>
            (\<exists>st'. delete_event st userId calendarId eventId =
                (\<lparr>status = 200, body = Message ''Event removed from calendar successfully''\<rparr>, st')
              \<and> Calendar_findById st' calendarId =
                  Some (calendar\<lparr>c_events := removeAll eventId (c_events calendar)\<rparr>)
              \<and> eventId \<notin> set (removeAll eventId (c_events calendar))
              \<and> events st' = events st))"
proof -
  let ?c' = "calendar\<lparr>c_events := removeAll eventId (c_events calendar)\<rparr>"
  from found have i: "c_id calendar = calendarId" by (rule Calendar_findById_id)
  then have "c_id ?c' = calendarId" by simp
  with found have "Calendar_findById (Calendar_save st ?c') calendarId = Some ?c'"
    using Calendar_findById_save [of st ?c' calendar] by simp
  moreover have "events (Calendar_save st ?c') = events st"
    by (simp add: Calendar_save_def)
  ultimately show ?thesis
    using found owner by (simp add: delete_event_def)
qed

theorem delete_event_checks_presence_witness:
  "Calendar_findById with_late_event 10 = Some (bobs_calendar\<lparr>c_events := [20]\<rparr>)
   \<and> c_owner (bobs_calendar\<lparr>c_events := [20]\<rparr>) = 2
   \<and> delete_event with_late_event 2 10 21 =
       (\<lparr>status = 404, body = Message ''Event not found in this calendar''\<rparr>, with_late_event)
   \<and> delete_event with_late_event 2 10 20 =
       (\<lparr>status = 200, body = Message ''Event removed from calendar successfully''\<rparr>,
        with_late_event\<lparr>calendars := [bobs_calendar]\<rparr>)
   \<and> events (with_late_event\<lparr>calendars := [bobs_calendar]\<rparr>) = [late_event]"
proof -
  have h: "Calendar_findById with_late_event 10 = Some (bobs_calendar\<lparr>c_events := [20]\<rparr>)"
    "c_owner (bobs_calendar\<lparr>c_events := [20]\<rparr>) = 2"
    by (simp_all add: Calendar_findById_def with_late_event_def both_logged_in_def
        bobs_calendar_def)
  have run: "delete_event with_late_event 2 10 20 =
       (\<lparr>status = 200, body = Message ''Event removed from calendar successfully''\<rparr>,
        with_late_event\<lparr>calendars := [bobs_calendar]\<rparr>)"
    by (simp add: delete_event_def Calendar_findById_def with_late_event_def
        both_logged_in_def bobs_calendar_def Calendar_save_def)
  from delete_event_checks_presence [OF h, of 21] delete_event_checks_presence [OF h, of 20]
    h run
  show ?thesis by (simp add: with_late_event_def both_logged_in_def)
qed

text \<open>The other variant deletes the event record itself, listed in the calendar or not.\<close>

lemma delete_event_record_unlisted:
  "delete_event_record (with_late_event\<lparr>calendars := [bobs_calendar]\<rparr>) 2 10 20 =
     (\<lparr>status = 200, body = Message ''Event deleted successfully''\<rparr>,
      with_late_event\<lparr>calendars := [bobs_calendar], events := []\<rparr>)"
  by (simp add: delete_event_record_def Calendar_findById_def Event_findById_def
      with_late_event_def both_logged_in_def bobs_calendar_def late_event_def
      Calendar_save_def)

subsection \<open>Creating an event and reading it back\<close>

lemma identity_summary_fields:
  "map_of (identity_summary u) ''_id'' = Some (Id (u_id u))"
  "map_of (identity_summary u) ''email'' = Some (Str (u_email u))"
  "map_of (identity_summary u) ''name'' = Some (nullable_str (u_name u))"
  "map_of (identity_summary u) ''role'' = Some (nullable_str (u_role u))"
  "map_of (identity_summary u) ''password'' = None"
  "map_of (identity_summary u) ''refreshToken'' = None"
  by (simp_all add: identity_summary_def select_without_def user_doc_def sensitive_def)

lemma identity_summary_keys:
  "map fst (identity_summary u) = [''_id'', ''email'', ''name'', ''role'']"
  by (simp add: identity_summary_def select_without_def user_doc_def sensitive_def)

lemma new_Event_Inr:
  assumes "new_Event newId userId b = Inr ev"
  shows "\<exists>title startTime endTime.
           r_title b = Some title \<and> r_startTime b = Some startTime \<and> r_endTime b = Some endTime
         \<and> e_id ev = newId \<and> e_title ev = trim title \<and> e_startTime ev = startTime
         \<and> e_endTime ev = endTime \<and> e_organizer ev = userId"
  using assms by (auto simp: new_Event_def split: option.splits if_splits)

text \<open>A title without white space at either end is stored as it is given.\<close>

lemma trim_unchanged:
  assumes "s \<noteq> []" "\<not> in_ranges (hd s) whitespace" "\<not> in_ranges (last s) whitespace"
  shows "trim s = s"
proof -
  from assms(1,2) have "dropWhile (\<lambda>c. in_ranges c whitespace) s = s"
    by (cases s) auto
  moreover from assms(1,3) have "dropWhile (\<lambda>c. in_ranges c whitespace) (rev s) = rev s"
    by (cases "rev s") (auto simp: hd_rev)
  ultimately show ?thesis by (simp add: trim_def)
qed

text \<open>
  C9, as the routes have it. For every event created through the event-creation route
  (status 201) with given title, start and end, reading the returned event id back yields
  the same start and end and the title with the white space at its ends removed, as the
  schema stores it and as the creation response shows it (the given title itself when it
  has no such white space); the organizer is expanded to the requester's identity summary,
  which has neither a password nor a refresh token field.
\<close>

theorem post_event_get_event_roundtrip:
  assumes run: "post_event newId st userId calendarId b = (resp, st')"
    and created: "status resp = 201"
  shows "\<exists>title startTime endTime created v.
           r_title b = Some title \<and> r_startTime b = Some startTime \<and> r_endTime b = Some endTime
         \<and> body resp = MessageEvent ''Event created successfully'' created
         \<and> e_id created = newId
         \<and> get_event st' newId = \<lparr>status = 200, body = EventDetail v\<rparr>
         \<and> v_title v = trim title \<and> v_title v = e_title created
         \<and> v_startTime v = startTime \<and> v_endTime v = endTime
         \<and> v_organizer v = map_option identity_summary (User_findById st userId)
         \<and> (\<forall>u. map_of (identity_summary u) ''password'' = None
                \<and> map_of (identity_summary u) ''refreshToken'' = None)"
proof -
  from run created obtain calendar ev st1 where
    ev: "new_Event newId userId b = Inr ev" and
    ins: "Event_insert st ev = Inr st1" and
    resp: "resp = \<lparr>status = 201, body = MessageEvent ''Event created successfully'' ev\<rparr>" and
    st': "st' = Calendar_save st1 (calendar\<lparr>c_events := c_events calendar @ [e_id ev]\<rparr>)"
    by (auto simp: post_event_def access_denied_def split: option.splits if_splits sum.splits)
  from new_Event_Inr [OF ev] obtain title startTime endTime where
    b: "r_title b = Some title" "r_startTime b = Some startTime" "r_endTime b = Some endTime"
    and f: "e_id ev = newId" "e_title ev = trim title" "e_startTime ev = startTime"
      "e_endTime ev = endTime" "e_organizer ev = userId"
    by blast
  from ins have fresh: "\<forall>x\<in>set (events st). e_id x \<noteq> newId"
    and st1: "st1 = st\<lparr>events := events st @ [ev]\<rparr>"
    using f(1) by (auto simp: Event_insert_def image_iff split: if_splits)
  have evs: "events st' = events st @ [ev]" and us: "users st' = users st"
    by (simp_all add: st' st1 Calendar_save_def)
  have "Event_findById st' newId = Some ev"
    unfolding Event_findById_def evs using fresh f(1) by (intro find_appended) auto
  then have get: "get_event st' newId = \<lparr>status = 200, body = EventDetail (populate st' ev)\<rparr>"
    by (simp add: get_event_def)
  have org: "v_organizer (populate st' ev) = map_option identity_summary (User_findById st userId)"
    by (simp add: populate_def populate_user_def User_findById_def us f)
  show ?thesis
    using b f get org resp by (simp add: populate_def identity_summary_fields)
qed

lemma post_event_standup:
  "post_event 30 with_calendar 2 10 standup =
     (\<lparr>status = 201, body = MessageEvent ''Event created successfully'' standup_event\<rparr>,
      with_standup)"
  by (simp add: post_event_def Calendar_findById_def with_calendar_def both_logged_in_def
      bobs_calendar_def new_Event_def standup_def standup_event_def Event_insert_def
      Calendar_save_def trim_def js_def in_ranges_def whitespace_def with_standup_def)

lemma get_event_standup:
  "get_event with_standup 30 =
     \<lparr>status = 200, body = EventDetail
        \<lparr>v_id = 30, v_title = js ''Standup'', v_description = None,
         v_startTime = 1698051600000, v_endTime = 1698053400000, v_location = None,
         v_organizer = Some [(''_id'', Id 2), (''email'', Str (js ''bob@example.com'')),
                             (''name'', Str (js ''Bob'')), (''role'', Null)],
         v_attendees = []\<rparr>\<rparr>"
  by (simp add: get_event_def Event_findById_def standup_event_def populate_def
      populate_user_def User_findById_def with_standup_def with_calendar_def
      both_logged_in_def alice_def bob_def identity_summary_def select_without_def
      user_doc_def sensitive_def nullable_str_def List.map_filter_def)

theorem post_event_get_event_roundtrip_witness:
  "post_event 30 with_calendar 2 10 standup =
     (\<lparr>status = 201, body = MessageEvent ''Event created successfully'' standup_event\<rparr>,
      with_standup)
   \<and> (\<exists>v. get_event with_standup 30 = \<lparr>status = 200, body = EventDetail v\<rparr>
          \<and> v_title v = trim (js '' Standup'')
          \<and> v_startTime v = 1698051600000 \<and> v_endTime v = 1698053400000
          \<and> v_organizer v = map_option identity_summary (User_findById with_calendar 2))"
proof -
  from post_event_get_event_roundtrip [OF post_event_standup] post_event_standup
  show ?thesis by (auto simp: standup_def)
qed

text \<open>
  The claim as stated (the title read back is identical to the given one) fails for a
  title with white space at an end: \<open>standup\<close> is created with the title " Standup" and
  read back with the title "Standup".
\<close>

theorem post_event_title_trimmed_counterexample:
  "r_title standup = Some (js '' Standup'')
   \<and> post_event 30 with_calendar 2 10 standup =
       (\<lparr>status = 201, body = MessageEvent ''Event created successfully'' standup_event\<rparr>,
        with_standup)
   \<and> get_event with_standup 30 =
       \<lparr>status = 200, body = EventDetail
          \<lparr>v_id = 30, v_title = js ''Standup'', v_description = None,
           v_startTime = 1698051600000, v_endTime = 1698053400000, v_location = None,
           v_organizer = Some [(''_id'', Id 2), (''email'', Str (js ''bob@example.com'')),
                               (''name'', Str (js ''Bob'')), (''role'', Null)],
           v_attendees = []\<rparr>\<rparr>
   \<and> js ''Standup'' \<noteq> js '' Standup''"
  by (simp add: post_event_standup get_event_standup) (simp add: standup_def js_def)

subsection \<open>Day lookup\<close>

lemma setHours_fixed_offset:
  "setHours (fixed_offset tza) t h m s ms =
     TimeClip (((t + tza) div msPerDay) * msPerDay + (h * 3600000 + m * 60000 + s * 1000 + ms)
       - tza)"
  by (simp add: setHours_def fixed_offset_def Let_def)

lemma same_local_day:
  "((((t + tza) div msPerDay) * msPerDay - tza) + tza) div msPerDay = (t + tza) div msPerDay"
proof -
  have "msPerDay \<noteq> 0" by (simp add: msPerDay_def)
  then show ?thesis by simp
qed

text \<open>
  What the handler returns in a zone of fixed offset for a date that parses, the day
  lying within the range of \<open>Date\<close>: the requester's events that start within the 86399999
  milliseconds from the start of the local day of the parsed instant.
\<close>

lemma get_events_day_window:
  assumes parsed: "Date_parse date = Some t"
    and start: "startOfDay = ((t + tza) div msPerDay) * msPerDay - tza"
    and range: "\<bar>startOfDay\<bar> \<le> 8640000000000000" "\<bar>startOfDay + 86399999\<bar> \<le> 8640000000000000"
  shows "get_events_day Date_parse (fixed_offset tza) st userId date =
     (let found = filter (\<lambda>e. e_organizer e = userId \<and> startOfDay \<le> e_startTime e \<and>
                           e_startTime e < startOfDay + 86399999) (events st)
      in (if found = [] then
            \<lparr>status = 404, body = Message ''No events found for the specified date''\<rparr>
          else \<lparr>status = 200, body = EventList (map (populate st) found)\<rparr>,
          [Event_find userId startOfDay (startOfDay + 86399999)]))"
proof -
  have first: "setHours (fixed_offset tza) t 0 0 0 0 = Some startOfDay"
    using range(1) by (simp add: setHours_fixed_offset start TimeClip_def)
  have "((startOfDay + tza) div msPerDay) * msPerDay - tza = startOfDay"
    unfolding start same_local_day ..
  then have "((startOfDay + tza) div msPerDay) * msPerDay + 86399999 - tza =
      startOfDay + 86399999"
    by simp
  then have second: "setHours (fixed_offset tza) startOfDay 23 59 59 999 =
      Some (startOfDay + 86399999)"
    using range(2) by (simp add: setHours_fixed_offset TimeClip_def)
  show ?thesis
    by (simp add: get_events_day_def parsed first second Let_def)
qed

text \<open>
  On the last day a \<open>Date\<close> can hold, the end of the day is out of range: the answer is
  500 and nothing is asked of the store.
\<close>

lemma get_events_day_out_of_range:
  "get_events_day parse_last_day (fixed_offset 0) st userId (js ''+275760-09-13'') =
     (\<lparr>status = 500,
       body = MessageError ''Server error during event retrieval'' CastError\<rparr>, [])"
  by (simp add: get_events_day_def parse_last_day_def setHours_fixed_offset TimeClip_def
      msPerDay_def)

text \<open>
  A date-only string denotes midnight UTC of its day \<open>d\<close>. East of UTC (and at UTC) the
  local day of that instant is \<open>d\<close>; west of UTC it is the day before.
\<close>

lemma local_day_east:
  assumes "0 \<le> tza" "tza < msPerDay"
  shows "((d * msPerDay + tza) div msPerDay) * msPerDay - tza = d * msPerDay - tza"
proof -
  have "msPerDay \<noteq> 0" by (simp add: msPerDay_def)
  then have "(tza + d * msPerDay) div msPerDay = d + tza div msPerDay"
    by (rule div_mult_self1)
  moreover from assms have "tza div msPerDay = 0" by (simp add: div_pos_pos_trivial)
  ultimately show ?thesis by (simp add: add.commute)
qed

lemma local_day_west:
  assumes "- msPerDay \<le> tza" "tza < 0"
  shows "((d * msPerDay + tza) div msPerDay) * msPerDay - tza = (d - 1) * msPerDay - tza"
proof -
  have "msPerDay \<noteq> 0" by (simp add: msPerDay_def)
  then have "((tza + msPerDay) + (d - 1) * msPerDay) div msPerDay =
      (d - 1) + (tza + msPerDay) div msPerDay"
    by (rule div_mult_self1)
  moreover from assms have "(tza + msPerDay) div msPerDay = 0"
    by (simp add: div_pos_pos_trivial)
  moreover have "(tza + msPerDay) + (d - 1) * msPerDay = d * msPerDay + tza"
    by (simp add: algebra_simps)
  ultimately show ?thesis by simp
qed

text \<open>
  C3. For every authenticated requester and date string \<open>D\<close> in YYYY-MM-DD form, the day
  lookup returns exactly the requester's events whose start lies in the local-time
  interval from \<open>D\<close> at 00:00:00.000 (inclusive) to the next day at 00:00:00.000
  (exclusive), and answers 404 when there is none.

  The handler breaks this. At UTC (\<open>fixed_offset 0\<close>), Bob (who passes the auth gate) has
  one event, which starts at 2023-10-23T23:59:59.999: it lies in the interval of
  2023-10-23, and the lookup of that date answers 404, since the handler compares with
  \<open>$lt\<close> against 23:59:59.999.
\<close>

theorem get_events_day_misses_last_millisecond:
  "authMiddleware example_jwt with_late_event (Some (js ''bob.access'')) = Next (payload bob)
   \<and> cl_id (payload bob) = 2
   \<and> parse_2023_10_23 (js ''2023-10-23'') = Some (19653 * msPerDay)
   \<and> events with_late_event = [late_event]
   \<and> e_organizer late_event = 2
   \<and> 19653 * msPerDay \<le> e_startTime late_event
   \<and> e_startTime late_event < (19653 + 1) * msPerDay
   \<and> get_events_day parse_2023_10_23 (fixed_offset 0) with_late_event 2 (js ''2023-10-23'') =
       (\<lparr>status = 404, body = Message ''No events found for the specified date''\<rparr>,
        [Event_find 2 1698019200000 1698105599999])"
proof (intro conjI)
  show "authMiddleware example_jwt with_late_event (Some (js ''bob.access'')) =
      Next (payload bob)"
    by (simp add: authMiddleware_def with_late_event_def both_logged_in_def alice_def
        example_jwt_def js_def)
  show "cl_id (payload bob) = 2"
    by (simp add: payload_def bob_def)
  show "parse_2023_10_23 (js ''2023-10-23'') = Some (19653 * msPerDay)"
    by (simp add: parse_2023_10_23_def msPerDay_def)
  show "events with_late_event = [late_event]"
    by (simp add: with_late_event_def both_logged_in_def)
  show "e_organizer late_event = 2"
    by (simp add: late_event_def)
  show "19653 * msPerDay \<le> e_startTime late_event"
    by (simp add: late_event_def msPerDay_def)
  show "e_startTime late_event < (19653 + 1) * msPerDay"
    by (simp add: late_event_def msPerDay_def)
  show "get_events_day parse_2023_10_23 (fixed_offset 0) with_late_event 2 (js ''2023-10-23'') =
      (\<lparr>status = 404, body = Message ''No events found for the specified date''\<rparr>,
       [Event_find 2 1698019200000 1698105599999])"
    by (simp add: get_events_day_def parse_2023_10_23_def setHours_fixed_offset TimeClip_def
        msPerDay_def with_late_event_def both_logged_in_def late_event_def)
qed

text \<open>
  Five hours west of UTC the handler looks at the day before: the lookup of 2023-10-23
  returns the event that starts at 23:59 on 2023-10-22 local time, and not the one
  that starts at 18:59:59.999 on 2023-10-23.
\<close>

lemma get_events_day_west_of_UTC:
  "get_events_day parse_2023_10_23 (fixed_offset (- 18000000)) with_two_events 2
     (js ''2023-10-23'') =
     (\<lparr>status = 200, body = EventList [populate with_two_events previous_evening]\<rparr>,
      [Event_find 2 1697950800000 1698037199999])"
  by (simp add: get_events_day_def parse_2023_10_23_def setHours_fixed_offset TimeClip_def
      msPerDay_def with_two_events_def both_logged_in_def late_event_def previous_evening_def)

text \<open>
  C10. For every authenticated day-lookup request whose date parameter does not parse to
  a valid date, the handler answers 400 "Invalid date format" and sends no query to the
  store, whatever the store holds.
\<close>

theorem get_events_day_invalid_date:
  assumes "Date_parse date = None"
  shows "get_events_day Date_parse tza st userId date =
           (\<lparr>status = 400, body = Message ''Invalid date format''\<rparr>, [])"
  using assms by (simp add: get_events_day_def)

theorem get_events_day_invalid_date_witness:
  "parse_2023_10_23 (js ''tomorrow'') = None
   \<and> get_events_day parse_2023_10_23 (fixed_offset 0) with_late_event 2 (js ''tomorrow'') =
       (\<lparr>status = 400, body = Message ''Invalid date format''\<rparr>, [])"
proof -
  have h: "parse_2023_10_23 (js ''tomorrow'') = None"
    by (simp add: parse_2023_10_23_def js_def)
  from get_events_day_invalid_date [where Date_parse = parse_2023_10_23
      and date = "js ''tomorrow''" and tza = "fixed_offset 0" and st = with_late_event and userId = 2, OF h] h
  show ?thesis by simp
qed

end
